theory Spec2Isabelle
  imports Main
begin

section \<open>Query algebra: Sort (src/query/Sort.ts)\<close>

text \<open>
  Errors of the program are values. \<open>DuplicateId\<close> is the \<open>Error\<close> that
  \<open>MemoryStore._add\<close> constructs, \<open>DuplicateInCollection\<close> the one of
  \<open>BaseStore.buildMap\<close>, \<open>NotSerializable\<close> the one thrown by \<open>Sort.toString\<close>, and
  \<open>TypeError\<close> is what the JavaScript engine raises when a property of \<open>undefined\<close>
  is read or something that is no function is called.
\<close>

datatype error = DuplicateId | DuplicateInCollection | NotSerializable | TypeError

text \<open>
  The value \<open>navigate\<close> finds at a property path: \<open>undefined\<close>, \<open>null\<close>, or a defined
  value. JavaScript's \<open>a == null\<close> holds for the first two.
\<close>

datatype 'v jsval = Undefined | Null | Val 'v

fun eq_null :: "'v jsval \<Rightarrow> bool" where
  "eq_null Undefined = True"
| "eq_null Null = True"
| "eq_null (Val _) = False"

text \<open>
  \<open>a < b\<close> on the values that reach the last three branches of \<open>sortValue\<close>; the
  comparison of two defined values is the parameter \<open>lt\<close>. \<open>a > b\<close> is \<open>b < a\<close>.
\<close>

fun js_less :: "('v \<Rightarrow> 'v \<Rightarrow> bool) \<Rightarrow> 'v jsval \<Rightarrow> 'v jsval \<Rightarrow> bool" where
  "js_less lt (Val x) (Val y) = lt x y"
| "js_less lt _ _ = False"

definition sortValue :: "('v \<Rightarrow> 'v \<Rightarrow> bool) \<Rightarrow> 'v jsval \<Rightarrow> 'v jsval \<Rightarrow> int" where
  "sortValue lt a b =
     (if eq_null a \<and> eq_null b then 0
      else if eq_null a \<and> \<not> eq_null b then - 1
      else if eq_null b \<and> \<not> eq_null a then 1
      else if js_less lt a b then - 1
      else if js_less lt b a then 1
      else 0)"

definition flip :: "('a \<Rightarrow> 'a \<Rightarrow> int) \<Rightarrow> 'a \<Rightarrow> 'a \<Rightarrow> int" where
  "flip comparator = (\<lambda>a b. - 1 * comparator a b)"

text \<open>
  The first argument of \<open>createSort\<close>: a comparator function, a property string, or a
  JsonPointer. The module \<open>patch/JsonPointer\<close> is not part of the sources, so its
  \<open>createPointer\<close>, \<open>navigate\<close> and the pointer's string form are parameters, kept
  together with the comparison of defined values.
\<close>

datatype ('a, 'p) comparatorOrProperty =
  Comparator "'a \<Rightarrow> 'a \<Rightarrow> int" | Property string | Pointer 'p

record ('a, 'p, 'v) pointer_lib =
  createPointer :: "string \<Rightarrow> 'p"
  navigate :: "'p \<Rightarrow> 'a \<Rightarrow> 'v jsval"
  pointerString :: "'p \<Rightarrow> string"
  less_val :: "'v \<Rightarrow> 'v \<Rightarrow> bool"

type_synonym ('a, 'p) sort_serializer = "('a, 'p) comparatorOrProperty \<Rightarrow> bool \<Rightarrow> string"

text \<open>
  The object \<open>createSort\<close> returns: its two public fields, and the variables its
  \<open>apply\<close> and \<open>toString\<close> closures capture (\<open>isFunction\<close>, the final \<open>comparator\<close>,
  the optional \<open>serializer\<close>).
\<close>

record ('a, 'p) sort =
  sort_comparatorOrProperty :: "('a, 'p) comparatorOrProperty"
  sort_descending :: bool
  isFunction :: bool
  comparator :: "'a \<Rightarrow> 'a \<Rightarrow> int"
  serializer :: "('a, 'p) sort_serializer option"

fun is_function :: "('a, 'p) comparatorOrProperty \<Rightarrow> bool" where
  "is_function (Comparator _) = True"
| "is_function _ = False"

fun base_comparator ::
  "('a, 'p, 'v) pointer_lib \<Rightarrow> ('a, 'p) comparatorOrProperty \<Rightarrow> 'a \<Rightarrow> 'a \<Rightarrow> int" where
  "base_comparator lib (Comparator f) = f"
| "base_comparator lib (Property s) =
     (\<lambda>a b. sortValue (less_val lib)
        (navigate lib (createPointer lib s) a) (navigate lib (createPointer lib s) b))"
| "base_comparator lib (Pointer p) =
     (\<lambda>a b. sortValue (less_val lib) (navigate lib p a) (navigate lib p b))"

definition createSort ::
  "('a, 'p, 'v) pointer_lib \<Rightarrow> ('a, 'p) comparatorOrProperty \<Rightarrow> bool \<Rightarrow>
   ('a, 'p) sort_serializer option \<Rightarrow> ('a, 'p) sort" where
  "createSort lib cop desc ser =
     \<lparr> sort_comparatorOrProperty = cop,
       sort_descending = desc,
       isFunction = is_function cop,
       comparator = (if desc then flip (base_comparator lib cop) else base_comparator lib cop),
       serializer = ser \<rparr>"

text \<open>
  \<open>serialize\<close>, the default serializer: the template
  \<open>Sort(${sort.comparatorOrProperty}, ${sort.descending ? '-' : '+'})\<close>. The string
  form of a function is its source text, which the model does not hold; \<open>toString\<close>
  never reaches \<open>serialize\<close> with one.
\<close>

fun cop_string :: "('a, 'p, 'v) pointer_lib \<Rightarrow> ('a, 'p) comparatorOrProperty \<Rightarrow> string" where
  "cop_string lib (Property s) = s"
| "cop_string lib (Pointer p) = pointerString lib p"
| "cop_string lib (Comparator _) = ''function''"

definition serialize :: "('a, 'p, 'v) pointer_lib \<Rightarrow> ('a, 'p) sort_serializer" where
  "serialize lib cop desc = ''Sort('' @ cop_string lib cop @ '', '' @ (if desc then ''-'' else ''+'') @ '')''"

definition toString ::
  "('a, 'p, 'v) pointer_lib \<Rightarrow> ('a, 'p) sort \<Rightarrow> ('a, 'p) sort_serializer option \<Rightarrow> error + string" where
  "toString lib srt sortSerializer =
     (if isFunction srt then Inl NotSerializable
      else Inr ((case sortSerializer of
                   Some f \<Rightarrow> f
                 | None \<Rightarrow> (case serializer srt of Some g \<Rightarrow> g | None \<Rightarrow> serialize lib))
                (sort_comparatorOrProperty srt) (sort_descending srt)))"

text \<open>
  \<open>Array.prototype.sort\<close> is the engine's: it sorts the array it is called on in place
  and returns that same array. Its reordering is modelled as a stable insertion sort by
  the comparator (an element goes before the first one it does not compare greater
  than), which is the order ECMAScript fixes for a consistent comparator.
\<close>

fun insert_by :: "('a \<Rightarrow> 'a \<Rightarrow> int) \<Rightarrow> 'a \<Rightarrow> 'a list \<Rightarrow> 'a list" where
  "insert_by c x [] = [x]"
| "insert_by c x (y # ys) = (if c x y \<le> 0 then x # y # ys else y # insert_by c x ys)"

definition array_sort :: "('a \<Rightarrow> 'a \<Rightarrow> int) \<Rightarrow> 'a list \<Rightarrow> 'a list" where
  "array_sort c xs = foldr (insert_by c) xs []"

text \<open>
  Arrays are objects: a store of arrays maps an address to the array's current
  contents, and a value of array type is an address. \<open>apply\<close> is
  \<open>(data) => data.sort(comparator)\<close>: it overwrites the contents at the address it is
  given and returns that address.
\<close>

type_synonym 'a arrays = "'a list list"

definition sort_apply :: "('a, 'p) sort \<Rightarrow> 'a arrays \<Rightarrow> nat \<Rightarrow> 'a arrays \<times> nat" where
  "sort_apply srt mem data = (mem[data := array_sort (comparator srt) (mem ! data)], data)"

section \<open>Store core (BaseStore and MemoryStore)\<close>

text \<open>
  Items are JavaScript objects, so the store holds references to them. The object heap
  is a list of objects and a reference is a position in it; an object has an \<open>id\<close>
  property and the rest of its (plain, nested) structure as one value \<open>'v\<close>. A value
  handed to the store as an item is a reference to an object, or an array of such
  values (what a rest parameter \<open>...items\<close> holds when it is passed on as a single
  argument).
\<close>

datatype 'v obj = Obj (obj_id: string) (obj_val: 'v)

type_synonym 'v heap = "'v obj list"

datatype jsref = Ref nat | Args "jsref list"


record entry =
  item :: jsref
  index :: nat

type_synonym item_map = "string \<rightharpoonup> entry"

text \<open>
  A query's \<open>apply\<close> (the interface \<open>Query\<close> is not part of the sources): a function of
  the item sequence that may read the items.
\<close>

type_synonym 'v query = "'v heap \<Rightarrow> jsref list \<Rightarrow> jsref list"

text \<open>
  The fields of \<open>BaseStore\<close> that the modelled methods use. The constructor always
  gives \<open>version\<close> a number (the source's version, or 1), so the guards
  \<open>typeof this.version !== 'undefined'\<close> hold. The methods are modelled on every value
  of these fields, whichever way a store came to hold them.
\<close>

datatype 'v store = Store
  (source: "'v store option")
  (queries: "'v query list")
  (smap: item_map)
  (data: "jsref list")
  (version: int)
  (isLive: bool)

datatype update =
  ItemAdded jsref nat
| ItemUpdated jsref
| ItemDeleted string nat
| BatchUpdate "update list"

text \<open>
  The methods return promises. A call ends in one of three ways: it returns a promise
  that resolves to a value (\<open>Inr\<close>), it returns a promise that rejects (\<open>Rejects\<close>), or
  it throws before it returns (\<open>Throws\<close>). Either way the fields keep what was assigned
  before the failure, so every method returns the store as it left it. Promises are
  run to completion in program order.

  The code is read as it is written. The module is strict code, so in a callback
  written as \<open>function (...) { ... }\<close> and called without receiver, \<open>bind\<close> or
  \<open>thisArg\<close>, \<open>this\<close> is \<open>undefined\<close> and reading \<open>this.map\<close> throws. The class declares
  and assigns \<open>data\<close>; \<open>this.collection\<close>, which \<open>_add\<close> and \<open>_delete\<close> use, is assigned
  nowhere and is \<open>undefined\<close>. \<open>getIds\<close> is abstract in \<open>BaseStore\<close> and \<open>MemoryStore\<close>
  does not define it, so calling \<open>this.getIds\<close> throws. The advice that
  \<open>setupUpdateAspects\<close> puts after \<open>_put\<close>, \<open>_add\<close> and \<open>_delete\<close> passes their result
  to \<open>handleUpdates\<close>, which is empty in \<open>MemoryStore\<close>; the primitives are modelled
  without it.
\<close>

datatype failure = Throws error | Rejects error

subsection \<open>buildMap\<close>

text \<open>
  \<open>buildMap(collection, map?)\<close> starts with \<open>this.getIds(...collection)\<close>, inside the
  argument of \<open>Promise.resolve\<close>: it throws before it builds anything and before there
  is a promise.
\<close>

definition buildMap :: "jsref list \<Rightarrow> item_map option \<Rightarrow> error + entry list" where
  "buildMap collection mp = Inl TypeError"

subsection \<open>The storage primitives of MemoryStore\<close>

text \<open>
  \<open>prim_fetch\<close>, \<open>prim_add\<close>, \<open>prim_delete\<close> and \<open>prim_get\<close> are \<open>_fetch\<close>, \<open>_add\<close>,
  \<open>_delete\<close> and \<open>_get\<close>; the field \<open>smap\<close> is \<open>map\<close>.

  \<open>_fetch(...queries)\<close> folds \<open>this.queries\<close> over \<open>this.data\<close> in an arrow function and
  does not read its parameter.
\<close>

definition prim_fetch :: "'v heap \<Rightarrow> 'v store \<Rightarrow> jsref list" where
  "prim_fetch h s = foldl (\<lambda>prev next. next h prev) (data s) (queries s)"

text \<open>
  \<open>_add(item)\<close> is \<open>this.getId(item).then(function(id) { if (this.map[id]) ... })\<close>.
  Without an item, \<open>getId\<close> reads \<open>.id\<close> of \<open>undefined\<close> and \<open>_add\<close> throws. With one,
  \<open>getId\<close> resolves and the callback runs with \<open>this\<close> undefined: its first step,
  reading \<open>this.map\<close>, throws, so the promise rejects before the duplicate check, the
  push and the map entry. No field is assigned.
\<close>

definition prim_add :: "jsref option \<Rightarrow> 'v store \<Rightarrow> 'v store \<times> (failure + update)" where
  "prim_add it s =
     (case it of
        None \<Rightarrow> (s, Inl (Throws TypeError))
      | Some _ \<Rightarrow> (s, Inl (Rejects TypeError)))"

text \<open>
  \<open>_delete(id)\<close> increments the version, reads \<open>this.map[id]\<close>, deletes that key, and
  then throws at \<open>this.collection.splice\<close>, for a present id and an absent one; the
  splice and the \<open>buildMap\<close> behind it are not reached.
\<close>

fun prim_delete :: "string \<Rightarrow> 'v store \<Rightarrow> 'v store \<times> (failure + update)" where
  "prim_delete i (Store src qs m d v l) =
     (Store src qs (m(i := None)) d (v + 1) l, Inl (Throws TypeError))"

text \<open>
  \<open>_get(...ids)\<close> is \<open>Promise.resolve(ids.map(function(id) { return
  duplicate(this.map[id].item) }))\<close>. \<open>Array.prototype.map\<close> calls the callback with
  \<open>this\<close> undefined, so for the first id reading \<open>this.map\<close> throws, inside the argument
  of \<open>Promise.resolve\<close>; with no id the callback is not called.
\<close>

definition prim_get :: "string list \<Rightarrow> 'v store \<Rightarrow> failure + jsref list" where
  "prim_get ids s = (case ids of [] \<Rightarrow> Inr [] | _ # _ \<Rightarrow> Inl (Throws TypeError))"

subsection \<open>The public methods of BaseStore\<close>

fun get :: "string list \<Rightarrow> 'v store \<Rightarrow> failure + jsref list" where
  "get ids (Store (Some src) qs m d v l) = get ids src"
| "get ids (Store None qs m d v l) = prim_get ids (Store None qs m d v l)"

text \<open>
  \<open>add(...items)\<close>: with a source, \<open>this.source.add(items)\<close> passes the rest array as
  the one argument of the call. Without one, the version is incremented and
  \<open>this._add(...items)\<close> binds the first item, if there is one, to \<open>_add\<close>'s parameter
  \<open>item\<close>. Were \<open>_add\<close> to resolve, to one event object, the callback of \<open>add\<close> would
  call \<open>results.map\<close> on it, which is no function.
\<close>

fun add :: "jsref list \<Rightarrow> 'v store \<Rightarrow> 'v store \<times> (failure + jsref list)" where
  "add items (Store (Some src) qs m d v l) =
     (case add [Args items] src of (src', r) \<Rightarrow> (Store (Some src') qs m d v l, r))"
| "add items (Store None qs m d v l) =
     (case prim_add (case items of [] \<Rightarrow> None | it # _ \<Rightarrow> Some it) (Store None qs m d (v + 1) l) of
        (s', Inl f) \<Rightarrow> (s', Inl f)
      | (s', Inr _) \<Rightarrow> (s', Inl (Rejects TypeError)))"

text \<open>
  \<open>delete(...ids)\<close>: with a source, \<open>this.source.delete(...ids)\<close> spreads the ids again.
  Without one, the version is incremented and \<open>this._delete(...ids)\<close> binds the first
  id; with no id, \<open>this.map[undefined]\<close> reads the key \<open>undefined\<close>.
\<close>

fun delete :: "string list \<Rightarrow> 'v store \<Rightarrow> 'v store \<times> (failure + string list)" where
  "delete ids (Store (Some src) qs m d v l) =
     (case delete ids src of (src', r) \<Rightarrow> (Store (Some src') qs m d v l, r))"
| "delete ids (Store None qs m d v l) =
     (case prim_delete (case ids of [] \<Rightarrow> ''undefined'' | i # _ \<Rightarrow> i) (Store None qs m d (v + 1) l) of
        (s', Inl f) \<Rightarrow> (s', Inl f)
      | (s', Inr _) \<Rightarrow> (s', Inl (Rejects TypeError)))"

text \<open>
  \<open>fetch(queries?)\<close>. With a source whose version differs, the source is fetched and,
  in a callback bound to the store, the version is copied and the store's queries are
  applied to what the source returned. When the store is live the callback goes on to
  \<open>this.buildMap(this.data)\<close>, which throws, so the promise rejects with \<open>version\<close> and
  \<open>data\<close> assigned and \<open>map\<close> as it was (were \<open>buildMap\<close> to resolve, the callback that
  assigns \<open>this.map\<close> would run with \<open>this\<close> undefined). Otherwise
  \<open>this._fetch(queries)\<close>.
\<close>

fun fetch ::
  "'v heap \<Rightarrow> 'v query list option \<Rightarrow> 'v store \<Rightarrow> 'v store \<times> (failure + jsref list)" where
  "fetch h qarg (Store (Some src) qs m d v l) =
     (if v \<noteq> version src then
        (case fetch h (Some qs) src of
           (src', Inl f) \<Rightarrow> (Store (Some src') qs m d v l, Inl f)
         | (src', Inr fullData) \<Rightarrow>
             (let d' = foldl (\<lambda>prev next. next h prev) fullData qs in
              if l then
                (case buildMap d' None of
                   Inl e \<Rightarrow> (Store (Some src') qs m d' (version src') l, Inl (Rejects e))
                 | Inr _ \<Rightarrow> (Store (Some src') qs m d' (version src') l, Inl (Rejects TypeError)))
              else (Store (Some src') qs m d' (version src') l, Inr d')))
      else (Store (Some src) qs m d v l, Inr (prim_fetch h (Store (Some src) qs m d v l))))"
| "fetch h qarg (Store None qs m d v l) =
     (Store None qs m d v l, Inr (prim_fetch h (Store None qs m d v l)))"

subsection \<open>Update propagation\<close>

text \<open>
  \<open>_put\<close> rests on the modules \<open>patch/Patch\<close> and \<open>dojo-shim/Map\<close>, which are not part
  of the sources. It assigns \<open>this.data\<close> and \<open>this.map\<close> and may fetch from the source;
  it never assigns \<open>this.version\<close>. What it leaves in those three fields, and whether
  it throws, is the parameter \<open>put\<close> of \<open>propagateUpdate\<close>.
\<close>

type_synonym 'v put_effect =
  "'v heap \<Rightarrow> jsref \<Rightarrow> 'v store \<Rightarrow> ('v store option \<times> item_map \<times> jsref list) \<times> error option"

text \<open>
  The \<open>forEach\<close> of \<open>propagateUpdate\<close>, which is given the store as \<open>thisArg\<close>. An
  exception of \<open>_add\<close>, \<open>_put\<close> or \<open>_delete\<close> ends the loop; a promise of theirs that
  rejects is dropped. The \<open>switch\<close> has no case for a batch inside a batch.
\<close>

fun forEach_event ::
  "'v put_effect \<Rightarrow> 'v heap \<Rightarrow> update list \<Rightarrow> 'v store \<Rightarrow> 'v store \<times> error option" where
  "forEach_event put h [] s = (s, None)"
| "forEach_event put h (ItemAdded it _ # events) s =
     (case prim_add (Some it) s of
        (s', Inl (Throws e)) \<Rightarrow> (s', Some e)
      | (s', _) \<Rightarrow> forEach_event put h events s')"
| "forEach_event put h (ItemUpdated it # events) s =
     (case put h it s of
        ((src', m', d'), Some e) \<Rightarrow> (Store src' (queries s) m' d' (version s) (isLive s), Some e)
      | ((src', m', d'), None) \<Rightarrow>
          forEach_event put h events (Store src' (queries s) m' d' (version s) (isLive s)))"
| "forEach_event put h (ItemDeleted i _ # events) s =
     (case prim_delete i s of
        (s', Inl (Throws e)) \<Rightarrow> (s', Some e)
      | (s', _) \<Rightarrow> forEach_event put h events s')"
| "forEach_event put h (BatchUpdate _ # events) s = forEach_event put h events s"

fun bump_version :: "int \<Rightarrow> 'v store \<Rightarrow> 'v store" where
  "bump_version n (Store src qs m d v l) = Store src qs m d (v + n) l"

fun updates_of :: "update \<Rightarrow> update list" where
  "updates_of (BatchUpdate updates) = updates"
| "updates_of eventOrEvents = [eventOrEvents]"

definition propagateUpdate ::
  "'v put_effect \<Rightarrow> 'v heap \<Rightarrow> update \<Rightarrow> 'v store \<Rightarrow> 'v store \<times> error option" where
  "propagateUpdate put h eventOrEvents s =
     (let events = updates_of eventOrEvents;
          s1 = bump_version 1 s;
          s2 = bump_version (int (length events)) s1
      in forEach_event put h events s2)"

subsection \<open>Concrete stores\<close>

text \<open>
  Three items with the ids 1, 2 and 3, a root store holding them in that order, an
  empty root store, and views of them.
\<close>

definition h3 :: "int heap" where
  "h3 = [Obj ''1'' 1, Obj ''2'' 2, Obj ''3'' 3]"

definition root0 :: "int store" where
  "root0 = Store None [] Map.empty [] 1 False"

definition root3 :: "int store" where
  "root3 = Store None []
     [''1'' \<mapsto> \<lparr>item = Ref 0, index = 0\<rparr>,
      ''2'' \<mapsto> \<lparr>item = Ref 1, index = 1\<rparr>,
      ''3'' \<mapsto> \<lparr>item = Ref 2, index = 2\<rparr>]
     [Ref 0, Ref 1, Ref 2] 1 False"

definition view0 :: "int store" where
  "view0 = Store (Some root0) [] Map.empty [] 1 False"

definition live3 :: "int store" where
  "live3 = Store (Some root3) []
     [''1'' \<mapsto> \<lparr>item = Ref 0, index = 0\<rparr>,
      ''2'' \<mapsto> \<lparr>item = Ref 1, index = 1\<rparr>,
      ''3'' \<mapsto> \<lparr>item = Ref 2, index = 2\<rparr>]
     [Ref 0, Ref 1, Ref 2] 1 True"

text \<open>
  Modelled from the spec: the Range query (\<open>query/Range\<close> is not part of the sources),
  whose \<open>apply\<close> "returns the sub-sequence [start, start+count), clamped to available
  length".
\<close>

definition range_apply :: "nat \<Rightarrow> nat \<Rightarrow> 'v query" where
  "range_apply start count = (\<lambda>h items. take count (drop start items))"

definition ranged3 :: "int store" where
  "ranged3 = Store (Some root3) [range_apply 1 1] Map.empty [] 0 False"

text \<open>A live view of the three items that has not fetched yet, and a live view of nothing.\<close>

definition tracked3 :: "int store" where
  "tracked3 = Store (Some root3) [] Map.empty [] 0 True"

definition live0 :: "int store" where
  "live0 = Store (Some root0) [] Map.empty [] 1 True"

text \<open>A \<open>_put\<close> that throws and leaves the store as it is.\<close>

definition put_throws :: "int put_effect" where
  "put_throws = (\<lambda>h it s. ((source s, smap s, data s), Some TypeError))"

text \<open>
  A pointer library over items that are their own value at every path, compared as
  integers.
\<close>

definition int_lib :: "(int jsval, unit, int) pointer_lib" where
  "int_lib = \<lparr> createPointer = (\<lambda>_. ()), navigate = (\<lambda>_ a. a),
               pointerString = (\<lambda>_. ''/v''), less_val = (<) \<rparr>"

section \<open>Properties of Sort\<close>

text \<open>
  C7. A Sort built from a property path (a string, turned into a pointer, or a
  pointer) compares two items by \<open>sortValue\<close> of the values at the path. When the first
  value is null or undefined and the second is defined the ascending comparator gives
  -1; when both are null or undefined it gives 0; and the descending comparator is the
  negation of the ascending one on every pair, so its sign is the opposite and it is 0
  exactly where the ascending one is.
\<close>

theorem sort_path_comparator:
  assumes "cop = Pointer p \<or> (\<exists>s. cop = Property s \<and> createPointer lib s = p)"
  shows "(eq_null (navigate lib p a) \<and> \<not> eq_null (navigate lib p b) \<longrightarrow>
            comparator (createSort lib cop False ser) a b = - 1)
       \<and> (eq_null (navigate lib p a) \<and> eq_null (navigate lib p b) \<longrightarrow>
            comparator (createSort lib cop False ser) a b = 0)
       \<and> comparator (createSort lib cop True ser) a b = - comparator (createSort lib cop False ser) a b
       \<and> sgn (comparator (createSort lib cop True ser) a b)
           = - sgn (comparator (createSort lib cop False ser) a b)
       \<and> (comparator (createSort lib cop True ser) a b = 0
            \<longleftrightarrow> comparator (createSort lib cop False ser) a b = 0)"
  using assms by (auto simp: createSort_def flip_def sortValue_def)

theorem sort_path_comparator_witness:
  "comparator (createSort int_lib (Property ''v'') False None) Null (Val 3) = - 1
   \<and> comparator (createSort int_lib (Property ''v'') False None) Undefined Null = 0
   \<and> comparator (createSort int_lib (Property ''v'') True None) Null (Val 3) = 1"
  using sort_path_comparator [of "Property ''v''" "()" int_lib Null "Val 3" None]
        sort_path_comparator [of "Property ''v''" "()" int_lib Undefined Null None]
  by (simp add: int_lib_def)

text \<open>
  C8. \<open>toString\<close> of a Sort fails, with the "not serializable" error, exactly when the
  Sort was created from a comparator function; created from a property string or a
  pointer it returns a string.
\<close>

theorem sort_toString_not_serializable:
  "(toString lib (createSort lib cop desc ser) sortSerializer = Inl NotSerializable) = is_function cop
   \<and> (\<exists>e. toString lib (createSort lib cop desc ser) sortSerializer = Inl e) = is_function cop
   \<and> (\<exists>str. toString lib (createSort lib cop desc ser) sortSerializer = Inr str) = (\<not> is_function cop)"
  by (auto simp: toString_def createSort_def)

text \<open>
  C4. \<open>apply\<close> of a Sort hands back the array it was given, sorted in place: after the
  call the array at the input's address holds 1, 2, 3 where it held 3, 1, 2.
\<close>

theorem sort_apply_sorts_in_place:
  "sort_apply (createSort lib (Comparator (\<lambda>a b. a - b)) False None) [[3, 1, 2 :: int]] 0
     = ([[1, 2, 3]], 0)
   \<and> fst (sort_apply (createSort lib (Comparator (\<lambda>a b. a - b)) False None) [[3, 1, 2 :: int]] 0) ! 0
     \<noteq> [[3, 1, 2]] ! 0"
  by (simp add: sort_apply_def createSort_def array_sort_def)

section \<open>Properties of the store\<close>

subsection \<open>delete\<close>

text \<open>
  C1. \<open>delete\<close> on a store without a source never succeeds: for every id it throws,
  with the version incremented twice, the id's entry gone from the map and the data
  as it was. So for the root store of the items 1, 2, 3, \<open>delete\<close> of the id 2 leaves
  all three items in the data, the item 2 without an entry, and the entry of the item
  3 with the index 2: nothing is removed and nothing is re-indexed. Deleting an id
  that is not in the map throws as well.
\<close>

theorem delete_throws_before_splice:
  "delete (i # ids) (Store None qs m d v l)
     = (Store None qs (m(i := None)) d (v + 2) l, Inl (Throws TypeError))
   \<and> (case delete [''2''] root3 of (s', r) \<Rightarrow>
        r = Inl (Throws TypeError) \<and> data s' = [Ref 0, Ref 1, Ref 2]
        \<and> smap s' ''2'' = None
        \<and> smap s' ''3'' = Some \<lparr>item = Ref 2, index = 2\<rparr>
        \<and> version s' = version root3 + 2)
   \<and> snd (delete [''4''] root3) = Inl (Throws TypeError)"
  by (simp add: root3_def)

subsection \<open>fetch\<close>

text \<open>
  C2. A view with the query Range(1, 1) whose version differs from its source's
  fetches the source, copies the version and caches the second item. Fetched again,
  with the versions now equal, it returns the query applied to that cache, the empty
  sequence, not the cache.
\<close>

theorem fetch_cache_hit_reapplies_queries:
  "(case fetch h3 None ranged3 of (s1, r1) \<Rightarrow>
      r1 = Inr [Ref 1] \<and> data s1 = [Ref 1] \<and> version s1 = version root3
      \<and> (case fetch h3 None s1 of (s2, r2) \<Rightarrow> r2 = Inr [] \<and> data s2 = [Ref 1]))"
  by (simp add: h3_def root3_def ranged3_def range_apply_def prim_fetch_def Let_def)

text \<open>
  A live view that fetches assigns the version and the data and then rejects; its map
  stays as it was.
\<close>

lemma fetch_live_rejects:
  "(case fetch h3 None tracked3 of (s1, r1) \<Rightarrow>
      r1 = Inl (Rejects TypeError) \<and> data s1 = [Ref 0, Ref 1, Ref 2]
      \<and> version s1 = version root3 \<and> smap s1 = smap tracked3)"
  by (simp add: h3_def root3_def tracked3_def prim_fetch_def buildMap_def Let_def)

text \<open>
  C10. \<open>fetch\<close> of a store without a source does not read its argument: whatever
  queries it is called with, it returns what it returns without any, the store's own
  queries applied in order to its data, and leaves the store as it is.
\<close>

theorem fetch_root_ignores_argument:
  "fetch h qarg (Store None qs m d v l) = fetch h None (Store None qs m d v l)
   \<and> fetch h qarg (Store None qs m d v l)
       = (Store None qs m d v l, Inr (foldl (\<lambda>prev next. next h prev) d qs))"
  by (simp add: prim_fetch_def)

subsection \<open>add\<close>

text \<open>
  C5. \<open>add\<close> on a store without a source rejects with a TypeError for every item,
  whether its id is in the map or not, and changes the version only. Adding the item
  1 to the empty root store twice, the first call stores nothing and the second
  rejects like the first, not with the duplicate-id error; \<open>get\<close> of the id then
  throws. Adding the item 2 to the root store that holds it rejects with the
  TypeError too.
\<close>

theorem add_rejects_every_item:
  "add (it # rest) (Store None qs m d v l) = (Store None qs m d (v + 1) l, Inl (Rejects TypeError))
   \<and> (case add [Ref 0] root0 of (s1, r1) \<Rightarrow>
        r1 = Inl (Rejects TypeError) \<and> data s1 = [] \<and> smap s1 ''1'' = None \<and> version s1 = 2
        \<and> (case add [Ref 0] s1 of (s2, r2) \<Rightarrow>
              r2 = Inl (Rejects TypeError) \<and> r2 \<noteq> Inl (Rejects DuplicateId)
              \<and> data s2 = [] \<and> version s2 = 3
              \<and> get [''1''] s2 = Inl (Throws TypeError)))
   \<and> smap root3 ''2'' = Some \<lparr>item = Ref 1, index = 1\<rparr>
   \<and> snd (add [Ref 1] root3) = Inl (Rejects TypeError)"
  by (simp add: root0_def root3_def prim_add_def prim_get_def)

text \<open>
  C6. A view hands \<open>add\<close> on to its source with the array of the items as the one
  argument. Called with no item, \<open>add\<close> on the source throws at once, while \<open>add\<close> on
  the view, which gives the source the empty array as its item, returns a promise that
  rejects. With an item both calls reject, as \<open>_add\<close> does for every item.
\<close>

theorem add_forwards_items_as_one_argument:
  "add items (Store (Some src) qs m d v l)
     = (Store (Some (fst (add [Args items] src))) qs m d v l, snd (add [Args items] src))
   \<and> snd (add [] root0) = Inl (Throws TypeError)
   \<and> snd (add [] view0) = Inl (Rejects TypeError)
   \<and> snd (add [Ref 0] root0) = Inl (Rejects TypeError)
   \<and> snd (add [Ref 0] view0) = Inl (Rejects TypeError)"
  by (simp add: root0_def view0_def prim_add_def split: prod.splits)

subsection \<open>propagateUpdate\<close>

lemma version_bump_version: "version (bump_version n s) = version s + n"
  by (cases s) simp

lemma prim_delete_throws:
  "prim_delete i s = (s', r) \<Longrightarrow> version s' = version s + 1 \<and> r = Inl (Throws TypeError)"
  by (cases s) auto

lemma forEach_event_version:
  "forEach_event put h events s = (s', e) \<Longrightarrow>
     version s \<le> version s' \<and> version s' \<le> version s + 1"
proof (induction put h events s arbitrary: s' e rule: forEach_event.induct)
  case (1 put h s)
  then show ?case by simp
next
  case (2 put h it uu events s)
  then show ?case by (simp add: prim_add_def)
next
  case (3 put h it events s)
  obtain src' m' d' er where p: "put h it s = ((src', m', d'), er)"
    by (metis prod.exhaust)
  show ?case
  proof (cases er)
    case None
    with 3(2) p have "forEach_event put h events (Store src' (queries s) m' d' (version s) (isLive s))
        = (s', e)" by simp
    from 3(1)[OF p[symmetric] refl refl None this] show ?thesis by simp
  next
    case (Some a)
    with 3(2) p show ?thesis by auto
  qed
next
  case (4 put h i uv events s)
  obtain s1 r where d: "prim_delete i s = (s1, r)" by (cases "prim_delete i s")
  from prim_delete_throws[OF d] have v: "version s1 = version s + 1" and t: "r = Inl (Throws TypeError)"
    by simp_all
  from "4.prems" d t have "s' = s1" by simp
  with v show ?case by simp
next
  case (5 put h uw events s)
  then show ?case by auto
qed

text \<open>
  C3. On an event or a batch of N events, \<open>propagateUpdate\<close> raises the version by
  N + 1, or by N + 2 when it comes to a delete event, never by N: it increments the
  version once and then adds N, and \<open>_delete\<close> increments it once more before it
  throws. One add event raises the version of a live view from 1 to 3, one delete event
  from 1 to 4.
\<close>

theorem propagateUpdate_version_off_by_one:
  "version s + 1 + int (length (updates_of ev)) \<le> version (fst (propagateUpdate put h ev s))
   \<and> version (fst (propagateUpdate put h ev s)) \<le> version s + 2 + int (length (updates_of ev))
   \<and> length (updates_of (ItemAdded (Ref 0) 0)) = 1
   \<and> version live0 = 1
   \<and> version (fst (propagateUpdate put_throws h3 (ItemAdded (Ref 0) 0) live0)) = 3
   \<and> length (updates_of (ItemDeleted ''2'' 1)) = 1
   \<and> version live3 = 1
   \<and> version (fst (propagateUpdate put_throws h3 (ItemDeleted ''2'' 1) live3)) = 4"
proof -
  let ?s2 = "bump_version (int (length (updates_of ev))) (bump_version 1 s)"
  obtain s3 e where f: "forEach_event put h (updates_of ev) ?s2 = (s3, e)"
    by (cases "forEach_event put h (updates_of ev) ?s2")
  have r: "propagateUpdate put h ev s = (s3, e)"
    using f by (simp add: propagateUpdate_def Let_def)
  have v2: "version ?s2 = version s + 1 + int (length (updates_of ev))"
    by (simp add: version_bump_version)
  from forEach_event_version[OF f] v2 r have
    "version s + 1 + int (length (updates_of ev)) \<le> version (fst (propagateUpdate put h ev s))"
    "version (fst (propagateUpdate put h ev s)) \<le> version s + 2 + int (length (updates_of ev))"
    by simp_all
  moreover have "version (fst (propagateUpdate put_throws h3 (ItemAdded (Ref 0) 0) live0)) = 3"
    by (simp add: propagateUpdate_def live0_def prim_add_def Let_def)
  moreover have "version (fst (propagateUpdate put_throws h3 (ItemDeleted ''2'' 1) live3)) = 4"
    by (simp add: propagateUpdate_def live3_def Let_def)
  ultimately show ?thesis by (simp add: live0_def live3_def)
qed

subsection \<open>get\<close>

text \<open>
  C9. \<open>get\<close> on a store without a source throws for every id, in the map or not: it
  returns no copy of the stored item. The root store of the items 1, 2, 3 has an entry
  for the id 2, and \<open>get\<close> of it throws.
\<close>

theorem get_throws_for_every_id:
  "get (i # ids) (Store None qs m d v l) = Inl (Throws TypeError)
   \<and> smap root3 ''2'' = Some \<lparr>item = Ref 1, index = 1\<rparr>
   \<and> get [''2''] root3 = Inl (Throws TypeError)"
  by (simp add: root3_def prim_get_def)

end
